theory Spec2Isabelle
  imports Main "HOL-Library.Word" "HOL-Library.Sublist"
begin

section \<open>JavaScript strings\<close>

text \<open>
  A JavaScript string is a sequence of UTF-16 code units, and \<^verbatim>\<open>.length\<close> counts code
  units. The string literals of \<^verbatim>\<open>ProjectModal.tsx\<close> are all ASCII; \<open>js\<close> embeds
  such a literal.
\<close>

type_synonym code_unit = "16 word"
type_synonym jsstring = "code_unit list"

definition js :: "string \<Rightarrow> jsstring" where
  "js s = map of_char s"

text \<open>
  \<^verbatim>\<open>s.includes(t)\<close>: \<open>t\<close> occurs in \<open>s\<close> as a contiguous run of code units.
\<close>

fun js_includes :: "jsstring \<Rightarrow> jsstring \<Rightarrow> bool" where
  "js_includes [] t = (t = [])"
| "js_includes (c # cs) t = (prefix t (c # cs) \<or> js_includes cs t)"

section \<open>The validation schema\<close>

text \<open>
  \<^verbatim>\<open>formSchema\<close> is a zod object of two string fields, each a chain of checks. A
  zod string runs every check of its chain in the order of declaration and adds one
  issue, carrying the check's message, for each check that fails:
  \<^item> \<^verbatim>\<open>.min(n, {message})\<close> fails when \<^verbatim>\<open>data.length < n\<close>;
  \<^item> \<^verbatim>\<open>.max(n, {message})\<close> fails when \<^verbatim>\<open>data.length > n\<close>;
  \<^item> \<^verbatim>\<open>.regex(r, {message})\<close> fails when \<^verbatim>\<open>r.test(data)\<close> is false.
\<close>

datatype check =
    Min nat jsstring
  | Max nat jsstring
  | Regex "jsstring \<Rightarrow> bool" jsstring

fun check_issue :: "check \<Rightarrow> jsstring \<Rightarrow> jsstring list" where
  "check_issue (Min n m) s = (if length s < n then [m] else [])"
| "check_issue (Max n m) s = (if length s > n then [m] else [])"
| "check_issue (Regex r m) s = (if \<not> r s then [m] else [])"

definition z_string :: "check list \<Rightarrow> jsstring \<Rightarrow> jsstring list" where
  "z_string checks s = concat (map (\<lambda>c. check_issue c s) checks)"

text \<open>
  The regular expression \<^verbatim>\<open>/^[a-zA-Z0-9]+$/\<close> has no flags: \<^verbatim>\<open>^\<close> is the start of the
  input, \<^verbatim>\<open>$\<close> is its end, and the class holds three ranges of code units. It matches
  exactly the non-empty strings whose code units all lie in the class.
\<close>

definition in_class :: "(code_unit \<times> code_unit) list \<Rightarrow> code_unit \<Rightarrow> bool" where
  "in_class ranges c = list_ex (\<lambda>(lo, hi). lo \<le> c \<and> c \<le> hi) ranges"

definition letters_and_numbers :: "(code_unit \<times> code_unit) list" where
  "letters_and_numbers =
     [(of_char CHR ''a'', of_char CHR ''z''),
      (of_char CHR ''A'', of_char CHR ''Z''),
      (of_char CHR ''0'', of_char CHR ''9'')]"

definition regex_test :: "jsstring \<Rightarrow> bool" where
  "regex_test s = (s \<noteq> [] \<and> list_all (in_class letters_and_numbers) s)"

definition name_schema :: "check list" where
  "name_schema =
     [Min 3 (js ''Project name must be atleast 3 characters long''),
      Max 17 (js ''Project name must be less than 17 characters'')]"

definition subdomain_schema :: "check list" where
  "subdomain_schema =
     [Min 3 (js ''Project subdomain must be atleast 3 characters long''),
      Regex regex_test (js ''Project subdomain must only contain letters and numbers'')]"

datatype field = Name | Subdomain

record form_values =
  name :: jsstring
  subdomain :: jsstring

text \<open>
  The object schema parses its fields in the order of declaration; an issue carries the
  path of its field. The parse succeeds when there is no issue.
\<close>

definition formSchema :: "form_values \<Rightarrow> (field \<times> jsstring) list" where
  "formSchema v =
     map (Pair Name) (z_string name_schema (name v)) @
     map (Pair Subdomain) (z_string subdomain_schema (subdomain v))"

text \<open>
  \<^verbatim>\<open>zodResolver\<close> turns the issues into the form's field errors: it walks the issues
  in order and keeps, for each path, the first one.
\<close>

definition zodResolver :: "(field \<times> jsstring) list \<Rightarrow> field \<Rightarrow> jsstring option" where
  "zodResolver issues f = map_of issues f"

section \<open>The collaborators of the component\<close>

text \<open>
  \<^verbatim>\<open>ProjectModal\<close> acts on its surroundings only through calls to its collaborators:
  the state setter \<^verbatim>\<open>setLoading\<close>, the toast system, the router, the modal store and
  the form. A run of one of its handlers is the list of these calls, in order.
\<close>

datatype effect =
    SetLoading bool
  | ToastLoading jsstring jsstring
  | ToastSuccess jsstring jsstring
  | ToastError jsstring jsstring
  | ToastRemove jsstring
  | RouterPush jsstring
  | CloseCreateProjectModal
  | FormSetError field jsstring jsstring

text \<open>
  The toast calls carry the message and the \<^verbatim>\<open>id\<close> option; \<^verbatim>\<open>FormSetError\<close> carries
  the field, the \<^verbatim>\<open>type\<close> and the \<^verbatim>\<open>message\<close>.

  The mutation \<^verbatim>\<open>createProjectAsync\<close> comes from the hook \<^verbatim>\<open>useCreateProject\<close>, which is
  outside the component: it is a parameter of the workflow. Its promise resolves with a
  result \<^verbatim>\<open>{ createProject?: { id, subdomain } }\<close>, rejects with a thrown value, or
  never settles. An identifier that is \<^verbatim>\<open>undefined\<close> or \<^verbatim>\<open>null\<close> is \<open>None\<close>; the
  identifier and the subdomain are strings otherwise.
\<close>

record created_project =
  project_id :: "jsstring option"
  project_subdomain :: jsstring

record mutation_result =
  createProject :: "created_project option"

datatype js_value =
    Undefined
  | Null
  | String jsstring
  | Object "(jsstring \<times> jsstring) list"

datatype thrown =
    ErrorInstance jsstring
  | NotAnError js_value

text \<open>
  \<^verbatim>\<open>ErrorInstance m\<close> is a value for which \<^verbatim>\<open>error instanceof Error\<close> holds, with
  \<^verbatim>\<open>error.message\<close> equal to \<open>m\<close>; \<open>NotAnError\<close> is any other thrown value (a plain
  object with a \<^verbatim>\<open>message\<close> property included).
\<close>

datatype outcome =
    Resolved mutation_result
  | Rejected thrown
  | Pending

section \<open>The submission workflow\<close>

text \<open>
  \<^verbatim>\<open>res.createProject?.id\<close> as a condition: the optional chain gives \<^verbatim>\<open>undefined\<close> when
  \<^verbatim>\<open>createProject\<close> is absent, and a string is truthy when it is not empty.
\<close>

definition truthy_id :: "mutation_result \<Rightarrow> bool" where
  "truthy_id res =
     (case createProject res of
        None \<Rightarrow> False
      | Some p \<Rightarrow> (case project_id p of None \<Rightarrow> False | Some i \<Rightarrow> i \<noteq> []))"

definition try_block :: "mutation_result \<Rightarrow> effect list" where
  "try_block res =
     (case createProject res of
        None \<Rightarrow> []
      | Some p \<Rightarrow>
          if truthy_id res
          then [ToastSuccess (js ''Project created successfully'') (js ''create-project''),
                RouterPush (js ''/dashboard/'' @ project_subdomain p)]
          else []) @
     [CloseCreateProjectModal]"

definition catch_block :: "thrown \<Rightarrow> effect list" where
  "catch_block error =
     (case error of
        ErrorInstance error_message \<Rightarrow>
          (let message =
             (if js_includes error_message
                   (js ''Unique constraint failed on the fields: (`subdomain`)'')
              then js ''Project subdomain already exists''
              else error_message)
           in [FormSetError Subdomain (js ''custom'') message,
               ToastRemove (js ''create-project'')])
      | NotAnError _ \<Rightarrow>
          [ToastError (js ''Something went wrong'') (js ''create-project''),
           CloseCreateProjectModal])"

definition finally_block :: "effect list" where
  "finally_block = [SetLoading False]"

text \<open>
  The handler runs up to the \<^verbatim>\<open>await\<close>, and goes on when the promise settles: with
  the rest of the \<^verbatim>\<open>try\<close> block when it resolves, with the \<^verbatim>\<open>catch\<close> block when it
  rejects, and with the \<^verbatim>\<open>finally\<close> block after either. When the promise never
  settles the handler never goes on.
\<close>

definition handleCreateProject :: "(form_values \<Rightarrow> outcome) \<Rightarrow> form_values \<Rightarrow> effect list" where
  "handleCreateProject createProjectAsync values =
     [SetLoading True,
      ToastLoading (js ''Creating project...'') (js ''create-project'')] @
     (case createProjectAsync \<lparr>name = name values, subdomain = subdomain values\<rparr> of
        Resolved res \<Rightarrow> try_block res @ finally_block
      | Rejected error \<Rightarrow> catch_block error @ finally_block
      | Pending \<Rightarrow> [])"

section \<open>The presence guard\<close>

text \<open>
  \<^verbatim>\<open>projects\<close> comes from the hook \<^verbatim>\<open>useUserProjects\<close>; it is \<^verbatim>\<open>undefined\<close> (\<open>None\<close>)
  while the collection is not available.
\<close>

definition validateProjectPresence :: "'p list option \<Rightarrow> effect list" where
  "validateProjectPresence projects =
     (case projects of
        None \<Rightarrow> []
      | Some ps \<Rightarrow> if length ps > 0 then [CloseCreateProjectModal] else [])"

section \<open>What the calls do\<close>

text \<open>
  The state the calls act on: the component's \<^verbatim>\<open>loading\<close> flag, the toasts by id,
  the navigation requests, the store's open flag, and the form's values and errors.
\<close>

datatype toast_type = LoadingToast | SuccessToast | ErrorToast

record world =
  loading :: bool
  toasts :: "jsstring \<rightharpoonup> toast_type \<times> jsstring"
  route_requests :: "jsstring list"
  isCreateProjectModalOpen :: bool
  field_values :: form_values
  field_errors :: "field \<rightharpoonup> jsstring \<times> jsstring"

text \<open>
  A toast call with an \<^verbatim>\<open>id\<close> creates the toast of that id or replaces it;
  \<^verbatim>\<open>toast.remove\<close> deletes it. \<^verbatim>\<open>router.push\<close> requests a navigation.
  \<^verbatim>\<open>form.setError\<close> sets the error of one field and touches neither the values nor the
  other errors.
\<close>

text \<open>
  Modelled from the spec: \<^verbatim>\<open>closeCreateProjectModal\<close> belongs to the store
  \<^verbatim>\<open>useProjectModal\<close>, whose source is not part of the component; by the spec a
  close request forces the modal closed, that is, it clears the flag
  \<^verbatim>\<open>isCreateProjectModalOpen\<close> that the modal renders from.
\<close>

definition closeCreateProjectModal :: "world \<Rightarrow> world" where
  [simp]: "closeCreateProjectModal w = w\<lparr>isCreateProjectModalOpen := False\<rparr>"

fun perform :: "effect \<Rightarrow> world \<Rightarrow> world" where
  "perform (SetLoading b) w = w\<lparr>loading := b\<rparr>"
| "perform (ToastLoading m k) w = w\<lparr>toasts := (toasts w)(k \<mapsto> (LoadingToast, m))\<rparr>"
| "perform (ToastSuccess m k) w = w\<lparr>toasts := (toasts w)(k \<mapsto> (SuccessToast, m))\<rparr>"
| "perform (ToastError m k) w = w\<lparr>toasts := (toasts w)(k \<mapsto> (ErrorToast, m))\<rparr>"
| "perform (ToastRemove k) w = w\<lparr>toasts := (toasts w)(k := None)\<rparr>"
| "perform (RouterPush p) w = w\<lparr>route_requests := route_requests w @ [p]\<rparr>"
| "perform CloseCreateProjectModal w = closeCreateProjectModal w"
| "perform (FormSetError f t m) w = w\<lparr>field_errors := (field_errors w)(f \<mapsto> (t, m))\<rparr>"

definition run :: "effect list \<Rightarrow> world \<Rightarrow> world" where
  "run es w = fold perform es w"

text \<open>
  The state in which a submission starts: the modal is open on the form holding the
  submitted values, nothing is in flight, and there is neither a toast nor an error.
\<close>

definition submitting :: "form_values \<Rightarrow> world" where
  "submitting v =
     \<lparr>loading = False, toasts = Map.empty, route_requests = [],
      isCreateProjectModalOpen = True, field_values = v, field_errors = Map.empty\<rparr>"

section \<open>Validation\<close>

lemma name_issues:
  "z_string name_schema s =
     (if length s < 3 then [js ''Project name must be atleast 3 characters long'']
      else if 17 < length s then [js ''Project name must be less than 17 characters'']
      else [])"
  by (simp add: z_string_def name_schema_def)

lemma subdomain_issues:
  "z_string subdomain_schema s =
     (if length s < 3 then [js ''Project subdomain must be atleast 3 characters long''] else []) @
     (if regex_test s then [] else [js ''Project subdomain must only contain letters and numbers''])"
  by (simp add: z_string_def subdomain_schema_def)

lemma map_of_Pair_same:
  "map_of (map (Pair f) xs) f = (case xs of [] \<Rightarrow> None | x # _ \<Rightarrow> Some x)"
  by (cases xs) simp_all

lemma map_of_Pair_other: "f \<noteq> g \<Longrightarrow> map_of (map (Pair g) xs) f = None"
  by (induction xs) simp_all

lemma name_error:
  "zodResolver (formSchema v) Name =
     (case z_string name_schema (name v) of [] \<Rightarrow> None | m # _ \<Rightarrow> Some m)"
  by (simp add: zodResolver_def formSchema_def map_add_def map_of_Pair_same map_of_Pair_other
      split: list.splits)

lemma subdomain_error:
  "zodResolver (formSchema v) Subdomain =
     (case z_string subdomain_schema (subdomain v) of [] \<Rightarrow> None | m # _ \<Rightarrow> Some m)"
  by (simp add: zodResolver_def formSchema_def map_add_def map_of_Pair_same map_of_Pair_other
      split: list.splits)

text \<open>
  C5. The name field is accepted exactly when the length of the name is in [3, 17],
  whatever its code units are; a name shorter than 3 gets the fixed message
  "Project name must be atleast 3 characters long" and a name longer than 17 the fixed
  message "Project name must be less than 17 characters". The field's error does not
  depend on the subdomain.
\<close>

theorem name_validation:
  "(zodResolver (formSchema v) Name = None \<longleftrightarrow> 3 \<le> length (name v) \<and> length (name v) \<le> 17) \<and>
   (length (name v) < 3 \<longrightarrow>
      zodResolver (formSchema v) Name = Some (js ''Project name must be atleast 3 characters long'')) \<and>
   (17 < length (name v) \<longrightarrow>
      zodResolver (formSchema v) Name = Some (js ''Project name must be less than 17 characters''))"
  by (simp add: name_error name_issues)

theorem name_validation_witness:
  "zodResolver (formSchema \<lparr>name = js ''a b'', subdomain = js ''''\<rparr>) Name = None \<and>
   zodResolver (formSchema \<lparr>name = js ''ab'', subdomain = js ''abc''\<rparr>) Name =
     Some (js ''Project name must be atleast 3 characters long'') \<and>
   zodResolver (formSchema \<lparr>name = js ''abcdefghijklmnopqr'', subdomain = js ''abc''\<rparr>) Name =
     Some (js ''Project name must be less than 17 characters'')"
  using name_validation [of "\<lparr>name = js ''a b'', subdomain = js ''''\<rparr>"]
    name_validation [of "\<lparr>name = js ''ab'', subdomain = js ''abc''\<rparr>"]
    name_validation [of "\<lparr>name = js ''abcdefghijklmnopqr'', subdomain = js ''abc''\<rparr>"]
  by (simp add: js_def)

text \<open>
  The class of the regular expression, by code points: \<open>a\<close> to \<open>z\<close> is 97 to 122,
  \<open>A\<close> to \<open>Z\<close> is 65 to 90, \<open>0\<close> to \<open>9\<close> is 48 to 57.
\<close>

lemma regex_test_iff:
  "regex_test s \<longleftrightarrow>
     s \<noteq> [] \<and> (\<forall>c \<in> set s. (97 \<le> c \<and> c \<le> 122) \<or> (65 \<le> c \<and> c \<le> 90) \<or> (48 \<le> c \<and> c \<le> 57))"
  by (simp add: regex_test_def in_class_def letters_and_numbers_def list_all_iff)

text \<open>
  C6. The subdomain field is accepted exactly when the subdomain has at least 3 code
  units and matches the regular expression. Each failing rule adds its own fixed message,
  the length rule first; the field shows the first one, so a subdomain shorter than 3
  gets the length message whether or not it matches, and a subdomain of length 3 or more
  that does not match gets the pattern message.
\<close>

theorem subdomain_validation:
  "(zodResolver (formSchema v) Subdomain = None \<longleftrightarrow>
      3 \<le> length (subdomain v) \<and> regex_test (subdomain v)) \<and>
   z_string subdomain_schema (subdomain v) =
     (if length (subdomain v) < 3
      then [js ''Project subdomain must be atleast 3 characters long''] else []) @
     (if regex_test (subdomain v)
      then [] else [js ''Project subdomain must only contain letters and numbers'']) \<and>
   (length (subdomain v) < 3 \<longrightarrow>
      zodResolver (formSchema v) Subdomain =
        Some (js ''Project subdomain must be atleast 3 characters long'')) \<and>
   (3 \<le> length (subdomain v) \<and> \<not> regex_test (subdomain v) \<longrightarrow>
      zodResolver (formSchema v) Subdomain =
        Some (js ''Project subdomain must only contain letters and numbers''))"
  by (simp add: subdomain_error subdomain_issues)

theorem subdomain_validation_witness:
  "zodResolver (formSchema \<lparr>name = js '''', subdomain = js ''aZ9''\<rparr>) Subdomain = None \<and>
   zodResolver (formSchema \<lparr>name = js ''abc'', subdomain = js ''ab''\<rparr>) Subdomain =
     Some (js ''Project subdomain must be atleast 3 characters long'') \<and>
   zodResolver (formSchema \<lparr>name = js ''abc'', subdomain = js ''a-''\<rparr>) Subdomain =
     Some (js ''Project subdomain must be atleast 3 characters long'') \<and>
   zodResolver (formSchema \<lparr>name = js ''abc'', subdomain = js ''abc-''\<rparr>) Subdomain =
     Some (js ''Project subdomain must only contain letters and numbers'')"
  using subdomain_validation [of "\<lparr>name = js '''', subdomain = js ''aZ9''\<rparr>"]
    subdomain_validation [of "\<lparr>name = js ''abc'', subdomain = js ''ab''\<rparr>"]
    subdomain_validation [of "\<lparr>name = js ''abc'', subdomain = js ''a-''\<rparr>"]
    subdomain_validation [of "\<lparr>name = js ''abc'', subdomain = js ''abc-''\<rparr>"]
  by (simp add: js_def regex_test_def in_class_def letters_and_numbers_def)

section \<open>Strings\<close>

lemma js_eq_Nil: "js s = [] \<longleftrightarrow> s = []"
  by (simp add: js_def)

lemma js_append: "js (a @ b) = js a @ js b"
  by (simp add: js_def)

text \<open>\<open>js_includes\<close> is the substring test.\<close>

lemma js_includes_iff: "js_includes s t \<longleftrightarrow> (\<exists>ps ss. s = ps @ t @ ss)"
proof (induction s)
  case Nil
  then show ?case by auto
next
  case (Cons c cs)
  show ?case
  proof
    assume "js_includes (c # cs) t"
    then consider "prefix t (c # cs)" | "js_includes cs t" by auto
    then show "\<exists>ps ss. c # cs = ps @ t @ ss"
    proof cases
      case 1
      then obtain ss where "c # cs = t @ ss" by (auto simp: prefix_def)
      then have "c # cs = [] @ t @ ss" by simp
      then show ?thesis by blast
    next
      case 2
      with Cons.IH obtain ps ss where "cs = ps @ t @ ss" by blast
      then have "c # cs = (c # ps) @ t @ ss" by simp
      then show ?thesis by blast
    qed
  next
    assume "\<exists>ps ss. c # cs = ps @ t @ ss"
    then obtain ps ss where eq: "c # cs = ps @ t @ ss" by blast
    show "js_includes (c # cs) t"
    proof (cases ps)
      case Nil
      with eq have "prefix t (c # cs)" by (simp add: prefix_def)
      then show ?thesis by simp
    next
      case (Cons p ps')
      with eq have "cs = ps' @ t @ ss" by simp
      with Cons.IH have "js_includes cs t" by blast
      then show ?thesis by simp
    qed
  qed
qed

lemma includes_conflict_message:
  "js_includes (js ''Invalid invocation: Unique constraint failed on the fields: (`subdomain`)'')
     (js ''Unique constraint failed on the fields: (`subdomain`)'')"
  by code_simp

lemma includes_other_message:
  "\<not> js_includes (js ''Network unreachable'')
     (js ''Unique constraint failed on the fields: (`subdomain`)'')"
  by code_simp

section \<open>The submission workflow: success\<close>

lemmas workflow_defs = handleCreateProject_def try_block_def catch_block_def finally_block_def
  run_def truthy_id_def

text \<open>
  C1. When the mutation resolves, whatever the result, the last call of the \<^verbatim>\<open>try\<close>
  block is the close request, after the identifier check and right before the
  \<^verbatim>\<open>finally\<close> block, and the modal ends closed. A navigation is requested exactly when
  the identifier is truthy, and so is the success notification; with an absent or falsy
  identifier no navigation is requested and the toast is still the in-progress one.
\<close>

theorem close_on_every_resolved_result:
  assumes "createProjectAsync \<lparr>name = name v, subdomain = subdomain v\<rparr> = Resolved res"
  shows "(\<exists>before. handleCreateProject createProjectAsync v =
            before @ [CloseCreateProjectModal, SetLoading False]) \<and>
         \<not> isCreateProjectModalOpen (run (handleCreateProject createProjectAsync v) w) \<and>
         ((\<exists>p. RouterPush p \<in> set (handleCreateProject createProjectAsync v)) \<longleftrightarrow> truthy_id res) \<and>
         ((\<exists>m k. ToastSuccess m k \<in> set (handleCreateProject createProjectAsync v)) \<longleftrightarrow> truthy_id res) \<and>
         (\<not> truthy_id res \<longrightarrow>
            route_requests (run (handleCreateProject createProjectAsync v) w) = route_requests w \<and>
            toasts (run (handleCreateProject createProjectAsync v) w) (js ''create-project'') =
              Some (LoadingToast, js ''Creating project...''))"
  using assms by (auto simp: workflow_defs split: option.splits)

theorem close_on_every_resolved_result_witness:
  "\<not> truthy_id \<lparr>createProject = Some \<lparr>project_id = Some (js ''''), project_subdomain = js ''acme''\<rparr>\<rparr> \<and>
   \<not> isCreateProjectModalOpen
       (run (handleCreateProject
               (\<lambda>_. Resolved \<lparr>createProject = Some \<lparr>project_id = Some (js ''''), project_subdomain = js ''acme''\<rparr>\<rparr>)
               \<lparr>name = js ''demo'', subdomain = js ''acme''\<rparr>)
            (submitting \<lparr>name = js ''demo'', subdomain = js ''acme''\<rparr>)) \<and>
   route_requests
       (run (handleCreateProject
               (\<lambda>_. Resolved \<lparr>createProject = Some \<lparr>project_id = Some (js ''''), project_subdomain = js ''acme''\<rparr>\<rparr>)
               \<lparr>name = js ''demo'', subdomain = js ''acme''\<rparr>)
            (submitting \<lparr>name = js ''demo'', subdomain = js ''acme''\<rparr>)) = []"
proof -
  have falsy: "\<not> truthy_id \<lparr>createProject = Some \<lparr>project_id = Some (js ''''), project_subdomain = js ''acme''\<rparr>\<rparr>"
    by (simp add: truthy_id_def js_eq_Nil)
  show ?thesis
    using falsy close_on_every_resolved_result
      [of "\<lambda>_. Resolved \<lparr>createProject = Some \<lparr>project_id = Some (js ''''), project_subdomain = js ''acme''\<rparr>\<rparr>"
          "\<lparr>name = js ''demo'', subdomain = js ''acme''\<rparr>"
          "\<lparr>createProject = Some \<lparr>project_id = Some (js ''''), project_subdomain = js ''acme''\<rparr>\<rparr>"
          "submitting \<lparr>name = js ''demo'', subdomain = js ''acme''\<rparr>"]
    by (simp add: submitting_def)
qed

text \<open>
  C2. When the mutation resolves with a result whose \<^verbatim>\<open>createProject\<close> has a truthy
  identifier, the calls are: the in-progress toast, the success toast under the same
  key \<^verbatim>\<open>create-project\<close> (which replaces it), the navigation to \<^verbatim>\<open>/dashboard/\<close> followed
  by the subdomain of the result (the submitted values \<open>v\<close> play no part), and the close
  request. With the result \<^verbatim>\<open>{createProject: {id: "p1", subdomain: "acme"}}\<close> the
  navigation goes to \<^verbatim>\<open>/dashboard/acme\<close>.
\<close>

theorem success_with_identifier:
  assumes "createProjectAsync \<lparr>name = name v, subdomain = subdomain v\<rparr> = Resolved res"
    and "createProject res = Some p"
    and "project_id p = Some i"
    and "i \<noteq> []"
  shows "handleCreateProject createProjectAsync v =
           [SetLoading True,
            ToastLoading (js ''Creating project...'') (js ''create-project''),
            ToastSuccess (js ''Project created successfully'') (js ''create-project''),
            RouterPush (js ''/dashboard/'' @ project_subdomain p),
            CloseCreateProjectModal,
            SetLoading False] \<and>
         toasts (run (handleCreateProject createProjectAsync v) w) (js ''create-project'') =
           Some (SuccessToast, js ''Project created successfully'') \<and>
         route_requests (run (handleCreateProject createProjectAsync v) w) =
           route_requests w @ [js ''/dashboard/'' @ project_subdomain p] \<and>
         \<not> isCreateProjectModalOpen (run (handleCreateProject createProjectAsync v) w)"
  using assms by (simp add: workflow_defs)

theorem success_with_identifier_witness:
  "route_requests
     (run (handleCreateProject
             (\<lambda>_. Resolved \<lparr>createProject = Some \<lparr>project_id = Some (js ''p1''), project_subdomain = js ''acme''\<rparr>\<rparr>)
             \<lparr>name = js ''demo'', subdomain = js ''other''\<rparr>)
          (submitting \<lparr>name = js ''demo'', subdomain = js ''other''\<rparr>)) = [js ''/dashboard/acme''] \<and>
   \<not> isCreateProjectModalOpen
     (run (handleCreateProject
             (\<lambda>_. Resolved \<lparr>createProject = Some \<lparr>project_id = Some (js ''p1''), project_subdomain = js ''acme''\<rparr>\<rparr>)
             \<lparr>name = js ''demo'', subdomain = js ''other''\<rparr>)
          (submitting \<lparr>name = js ''demo'', subdomain = js ''other''\<rparr>))"
proof -
  have truthy: "js ''p1'' \<noteq> []"
    by (simp add: js_eq_Nil)
  have path: "js ''/dashboard/'' @ js ''acme'' = js ''/dashboard/acme''"
    by (simp add: js_append [symmetric])
  show ?thesis
    using truthy path success_with_identifier
      [of "\<lambda>_. Resolved \<lparr>createProject = Some \<lparr>project_id = Some (js ''p1''), project_subdomain = js ''acme''\<rparr>\<rparr>"
          "\<lparr>name = js ''demo'', subdomain = js ''other''\<rparr>"
          "\<lparr>createProject = Some \<lparr>project_id = Some (js ''p1''), project_subdomain = js ''acme''\<rparr>\<rparr>"
          "\<lparr>project_id = Some (js ''p1''), project_subdomain = js ''acme''\<rparr>"
          "js ''p1''"
          "submitting \<lparr>name = js ''demo'', subdomain = js ''other''\<rparr>"]
    by (simp add: submitting_def run_def)
qed

section \<open>The submission workflow: failure\<close>

text \<open>
  C3. When the mutation throws an \<^verbatim>\<open>Error\<close> instance with message \<open>m\<close>, the error of
  the subdomain field becomes "Project subdomain already exists" if \<open>m\<close> contains
  "Unique constraint failed on the fields: (`subdomain`)", and \<open>m\<close> itself otherwise.
  The in-progress toast is removed, no success or error toast is shown, no close is
  requested, and the modal's open flag is what it was.
\<close>

theorem error_instance_sets_field_error:
  assumes "createProjectAsync \<lparr>name = name v, subdomain = subdomain v\<rparr> = Rejected (ErrorInstance m)"
  shows "field_errors (run (handleCreateProject createProjectAsync v) w) Subdomain =
           Some (js ''custom'',
                 if js_includes m (js ''Unique constraint failed on the fields: (`subdomain`)'')
                 then js ''Project subdomain already exists'' else m) \<and>
         toasts (run (handleCreateProject createProjectAsync v) w) (js ''create-project'') = None \<and>
         (\<forall>t k. ToastSuccess t k \<notin> set (handleCreateProject createProjectAsync v) \<and>
                ToastError t k \<notin> set (handleCreateProject createProjectAsync v)) \<and>
         CloseCreateProjectModal \<notin> set (handleCreateProject createProjectAsync v) \<and>
         isCreateProjectModalOpen (run (handleCreateProject createProjectAsync v) w) =
           isCreateProjectModalOpen w"
  using assms by (simp add: workflow_defs Let_def)

theorem error_instance_sets_field_error_witness:
  "field_errors
     (run (handleCreateProject
             (\<lambda>_. Rejected (ErrorInstance
                (js ''Invalid invocation: Unique constraint failed on the fields: (`subdomain`)'')))
             \<lparr>name = js ''demo'', subdomain = js ''acme''\<rparr>)
          (submitting \<lparr>name = js ''demo'', subdomain = js ''acme''\<rparr>)) Subdomain =
     Some (js ''custom'', js ''Project subdomain already exists'') \<and>
   field_errors
     (run (handleCreateProject
             (\<lambda>_. Rejected (ErrorInstance (js ''Network unreachable'')))
             \<lparr>name = js ''demo'', subdomain = js ''acme''\<rparr>)
          (submitting \<lparr>name = js ''demo'', subdomain = js ''acme''\<rparr>)) Subdomain =
     Some (js ''custom'', js ''Network unreachable'') \<and>
   isCreateProjectModalOpen
     (run (handleCreateProject
             (\<lambda>_. Rejected (ErrorInstance (js ''Network unreachable'')))
             \<lparr>name = js ''demo'', subdomain = js ''acme''\<rparr>)
          (submitting \<lparr>name = js ''demo'', subdomain = js ''acme''\<rparr>))"
  using error_instance_sets_field_error
    [of "\<lambda>_. Rejected (ErrorInstance
           (js ''Invalid invocation: Unique constraint failed on the fields: (`subdomain`)''))"
        "\<lparr>name = js ''demo'', subdomain = js ''acme''\<rparr>"
        "js ''Invalid invocation: Unique constraint failed on the fields: (`subdomain`)''"
        "submitting \<lparr>name = js ''demo'', subdomain = js ''acme''\<rparr>"]
    error_instance_sets_field_error
    [of "\<lambda>_. Rejected (ErrorInstance (js ''Network unreachable''))"
        "\<lparr>name = js ''demo'', subdomain = js ''acme''\<rparr>"
        "js ''Network unreachable''"
        "submitting \<lparr>name = js ''demo'', subdomain = js ''acme''\<rparr>"]
  by (simp add: includes_conflict_message includes_other_message submitting_def)

text \<open>
  C4. When the mutation throws a value that is not an \<^verbatim>\<open>Error\<close> instance, whatever the
  value, the in-progress toast is replaced under the key \<^verbatim>\<open>create-project\<close> by the error
  toast "Something went wrong", the close is requested and the modal ends closed; the
  form gets no error.
\<close>

theorem non_error_closes_modal:
  assumes "createProjectAsync \<lparr>name = name v, subdomain = subdomain v\<rparr> = Rejected (NotAnError x)"
  shows "handleCreateProject createProjectAsync v =
           [SetLoading True,
            ToastLoading (js ''Creating project...'') (js ''create-project''),
            ToastError (js ''Something went wrong'') (js ''create-project''),
            CloseCreateProjectModal,
            SetLoading False] \<and>
         toasts (run (handleCreateProject createProjectAsync v) w) (js ''create-project'') =
           Some (ErrorToast, js ''Something went wrong'') \<and>
         \<not> isCreateProjectModalOpen (run (handleCreateProject createProjectAsync v) w) \<and>
         field_errors (run (handleCreateProject createProjectAsync v) w) = field_errors w"
  using assms by (simp add: workflow_defs)

theorem non_error_closes_modal_witness:
  "toasts
     (run (handleCreateProject (\<lambda>_. Rejected (NotAnError Undefined))
             \<lparr>name = js ''demo'', subdomain = js ''acme''\<rparr>)
          (submitting \<lparr>name = js ''demo'', subdomain = js ''acme''\<rparr>)) (js ''create-project'') =
     Some (ErrorToast, js ''Something went wrong'') \<and>
   \<not> isCreateProjectModalOpen
     (run (handleCreateProject (\<lambda>_. Rejected (NotAnError Undefined))
             \<lparr>name = js ''demo'', subdomain = js ''acme''\<rparr>)
          (submitting \<lparr>name = js ''demo'', subdomain = js ''acme''\<rparr>))"
  using non_error_closes_modal
    [of "\<lambda>_. Rejected (NotAnError Undefined)"
        "\<lparr>name = js ''demo'', subdomain = js ''acme''\<rparr>"
        Undefined
        "submitting \<lparr>name = js ''demo'', subdomain = js ''acme''\<rparr>"]
  by (simp add: submitting_def run_def)

text \<open>
  C10. On the \<^verbatim>\<open>Error\<close> instance path the form changes only in the error of the
  subdomain field: the field values, the error of the name field and the modal's open
  flag are what they were, and no navigation is requested.
\<close>

theorem error_instance_frame:
  assumes "createProjectAsync \<lparr>name = name v, subdomain = subdomain v\<rparr> = Rejected (ErrorInstance m)"
  shows "field_values (run (handleCreateProject createProjectAsync v) w) = field_values w \<and>
         field_errors (run (handleCreateProject createProjectAsync v) w) Name = field_errors w Name \<and>
         field_errors (run (handleCreateProject createProjectAsync v) w) =
           (field_errors w)(Subdomain \<mapsto>
              (js ''custom'',
               if js_includes m (js ''Unique constraint failed on the fields: (`subdomain`)'')
               then js ''Project subdomain already exists'' else m)) \<and>
         isCreateProjectModalOpen (run (handleCreateProject createProjectAsync v) w) =
           isCreateProjectModalOpen w \<and>
         (\<forall>p. RouterPush p \<notin> set (handleCreateProject createProjectAsync v)) \<and>
         route_requests (run (handleCreateProject createProjectAsync v) w) = route_requests w"
  using assms by (simp add: workflow_defs Let_def)

theorem error_instance_frame_witness:
  "field_values
     (run (handleCreateProject (\<lambda>_. Rejected (ErrorInstance (js ''Network unreachable'')))
             \<lparr>name = js ''demo'', subdomain = js ''acme''\<rparr>)
          (submitting \<lparr>name = js ''demo'', subdomain = js ''acme''\<rparr>)) =
     \<lparr>name = js ''demo'', subdomain = js ''acme''\<rparr> \<and>
   field_errors
     (run (handleCreateProject (\<lambda>_. Rejected (ErrorInstance (js ''Network unreachable'')))
             \<lparr>name = js ''demo'', subdomain = js ''acme''\<rparr>)
          (submitting \<lparr>name = js ''demo'', subdomain = js ''acme''\<rparr>)) Name = None \<and>
   route_requests
     (run (handleCreateProject (\<lambda>_. Rejected (ErrorInstance (js ''Network unreachable'')))
             \<lparr>name = js ''demo'', subdomain = js ''acme''\<rparr>)
          (submitting \<lparr>name = js ''demo'', subdomain = js ''acme''\<rparr>)) = []"
  using error_instance_frame
    [of "\<lambda>_. Rejected (ErrorInstance (js ''Network unreachable''))"
        "\<lparr>name = js ''demo'', subdomain = js ''acme''\<rparr>"
        "js ''Network unreachable''"
        "submitting \<lparr>name = js ''demo'', subdomain = js ''acme''\<rparr>"]
  by (simp add: submitting_def)

section \<open>The in-flight flag\<close>

text \<open>
  While the mutation has not settled the flag is set.
\<close>

lemma pending_keeps_loading:
  "createProjectAsync \<lparr>name = name v, subdomain = subdomain v\<rparr> = Pending \<Longrightarrow>
   loading (run (handleCreateProject createProjectAsync v) w)"
  by (simp add: workflow_defs)

text \<open>
  C8. The first call of every submission sets the in-flight flag. Whenever the mutation
  settles, by resolving or by throwing any value, the last call of the handler is
  \<^verbatim>\<open>setLoading(false)\<close>, from the \<^verbatim>\<open>finally\<close> block, and the flag ends cleared.
\<close>

theorem loading_reset_on_every_path:
  "take 1 (handleCreateProject createProjectAsync v) = [SetLoading True] \<and>
   (createProjectAsync \<lparr>name = name v, subdomain = subdomain v\<rparr> \<noteq> Pending \<longrightarrow>
      last (handleCreateProject createProjectAsync v) = SetLoading False \<and>
      \<not> loading (run (handleCreateProject createProjectAsync v) w))"
  by (simp add: workflow_defs Let_def split: outcome.splits thrown.splits option.splits)

theorem loading_reset_on_every_path_witness:
  "\<not> loading
       (run (handleCreateProject
               (\<lambda>_. Resolved \<lparr>createProject = Some \<lparr>project_id = Some (js ''p1''), project_subdomain = js ''acme''\<rparr>\<rparr>)
               \<lparr>name = js ''demo'', subdomain = js ''acme''\<rparr>)
            (submitting \<lparr>name = js ''demo'', subdomain = js ''acme''\<rparr>)) \<and>
   \<not> loading
       (run (handleCreateProject (\<lambda>_. Rejected (ErrorInstance (js ''Network unreachable'')))
               \<lparr>name = js ''demo'', subdomain = js ''acme''\<rparr>)
            (submitting \<lparr>name = js ''demo'', subdomain = js ''acme''\<rparr>)) \<and>
   \<not> loading
       (run (handleCreateProject (\<lambda>_. Rejected (NotAnError Null))
               \<lparr>name = js ''demo'', subdomain = js ''acme''\<rparr>)
            (submitting \<lparr>name = js ''demo'', subdomain = js ''acme''\<rparr>))"
  using loading_reset_on_every_path
    [of "\<lambda>_. Resolved \<lparr>createProject = Some \<lparr>project_id = Some (js ''p1''), project_subdomain = js ''acme''\<rparr>\<rparr>"
        "\<lparr>name = js ''demo'', subdomain = js ''acme''\<rparr>"
        "submitting \<lparr>name = js ''demo'', subdomain = js ''acme''\<rparr>"]
    loading_reset_on_every_path
    [of "\<lambda>_. Rejected (ErrorInstance (js ''Network unreachable''))"
        "\<lparr>name = js ''demo'', subdomain = js ''acme''\<rparr>"
        "submitting \<lparr>name = js ''demo'', subdomain = js ''acme''\<rparr>"]
    loading_reset_on_every_path
    [of "\<lambda>_. Rejected (NotAnError Null)"
        "\<lparr>name = js ''demo'', subdomain = js ''acme''\<rparr>"
        "submitting \<lparr>name = js ''demo'', subdomain = js ''acme''\<rparr>"]
  by simp

section \<open>The presence guard\<close>

text \<open>
  C7. Invoked with a non-empty project collection, the guard makes one call, the close
  request, and the modal ends closed. Invoked with an empty collection it makes no call
  at all: the state, the open flag included, is what it was.
\<close>

theorem guard_closes_iff_projects:
  "(ps \<noteq> [] \<longrightarrow>
      validateProjectPresence (Some ps) = [CloseCreateProjectModal] \<and>
      \<not> isCreateProjectModalOpen (run (validateProjectPresence (Some ps)) w)) \<and>
   (ps = [] \<longrightarrow>
      validateProjectPresence (Some ps) = [] \<and>
      run (validateProjectPresence (Some ps)) w = w)"
  by (simp add: validateProjectPresence_def run_def)

theorem guard_closes_iff_projects_witness:
  "\<not> isCreateProjectModalOpen
       (run (validateProjectPresence (Some [js ''acme'']))
            (submitting \<lparr>name = js '''', subdomain = js ''''\<rparr>)) \<and>
   isCreateProjectModalOpen
       (run (validateProjectPresence (Some ([] :: jsstring list)))
            (submitting \<lparr>name = js '''', subdomain = js ''''\<rparr>))"
  using guard_closes_iff_projects
    [of "[js ''acme'']" "submitting \<lparr>name = js '''', subdomain = js ''''\<rparr>"]
    guard_closes_iff_projects
    [of "[] :: jsstring list" "submitting \<lparr>name = js '''', subdomain = js ''''\<rparr>"]
  by (simp add: submitting_def run_def)

text \<open>
  C9. Invoked while the project collection is not available (\<^verbatim>\<open>projects\<close> is
  \<^verbatim>\<open>undefined\<close>), the guard makes no call, as with an empty collection: no close is
  requested and the state is what it was. The guard reads nothing but \<^verbatim>\<open>projects\<close>, so
  the projects the server holds play no part.
\<close>

theorem guard_without_projects:
  "validateProjectPresence (None :: 'p list option) = [] \<and>
   validateProjectPresence (None :: 'p list option) = validateProjectPresence (Some ([] :: 'p list)) \<and>
   run (validateProjectPresence (None :: 'p list option)) w = w"
  by (simp add: validateProjectPresence_def run_def)

theorem guard_without_projects_witness:
  "isCreateProjectModalOpen
     (run (validateProjectPresence (None :: jsstring list option))
          (submitting \<lparr>name = js '''', subdomain = js ''''\<rparr>))"
  using guard_without_projects
    [where ?'p = jsstring and w = "submitting \<lparr>name = js '''', subdomain = js ''''\<rparr>"]
  by (simp add: submitting_def run_def)

end
